theory Spec2Isabelle
  imports Main "HOL-Library.Sublist"
begin

section \<open>Python strings as app.py uses them\<close>

text \<open>
  A Python \<open>str\<close> is a sequence of Unicode code points. A literal of the source that is
  plain ASCII is written \<open>lit ''...''\<close>; the emoji of the status messages are given by
  their code points.
\<close>

type_synonym codepoint = nat

type_synonym str = "codepoint list"

definition lit :: "string \<Rightarrow> str" where
  "lit s = map of_char s"

definition newline :: codepoint where
  "newline = 10"

text \<open>\<open>pat in s\<close> on two strings: \<open>pat\<close> occurs in \<open>s\<close> as a contiguous run.\<close>

fun str_in :: "str \<Rightarrow> str \<Rightarrow> bool" where
  "str_in pat [] = (pat = [])"
| "str_in pat (c # cs) = (prefix pat (c # cs) \<or> str_in pat cs)"

text \<open>
  \<open>s.upper()\<close> replaces every code point by its upper-case form, which may be several code
  points long (U+00DF becomes \<open>SS\<close>). On ASCII the letters \<open>a\<close> .. \<open>z\<close> become \<open>A\<close> .. \<open>Z\<close>
  and nothing else changes. Beyond ASCII the form comes from the Unicode database of the
  Python runtime, which is no part of the repository: it is the parameter \<open>table\<close>.
\<close>

definition upper_codepoint :: "(codepoint \<Rightarrow> str) \<Rightarrow> codepoint \<Rightarrow> str" where
  "upper_codepoint table c =
     (if c < 128 then [if 97 \<le> c \<and> c \<le> 122 then c - 32 else c] else table c)"

definition upper :: "(codepoint \<Rightarrow> str) \<Rightarrow> str \<Rightarrow> str" where
  "upper table s = concat (map (upper_codepoint table) s)"

text \<open>\<open>sep.join(xs)\<close>\<close>

fun join :: "str \<Rightarrow> str list \<Rightarrow> str" where
  "join sep [] = []"
| "join sep [x] = x"
| "join sep (x # y # ys) = x @ sep @ join sep (y # ys)"

text \<open>
  \<open>s.split(sep)\<close> for a separator of one character: the pieces between the occurrences of
  \<open>sep\<close>; there is always at least one piece.
\<close>

fun split_on :: "codepoint \<Rightarrow> str \<Rightarrow> str list" where
  "split_on sep [] = [[]]"
| "split_on sep (c # cs) =
     (if c = sep then [] # split_on sep cs
      else (case split_on sep cs of
              [] \<Rightarrow> [[c]]
            | w # ws \<Rightarrow> (c # w) # ws))"

text \<open>\<open>s.strip(c)\<close> for a set of one character: drop it from both ends.\<close>

definition strip_char :: "codepoint \<Rightarrow> str \<Rightarrow> str" where
  "strip_char c s = rev (dropWhile (\<lambda>x. x = c) (rev (dropWhile (\<lambda>x. x = c) s)))"

definition open_paren :: codepoint where
  "open_paren = 40"

definition close_paren :: codepoint where
  "close_paren = 41"

text \<open>
  What can escape to the caller of the run-analysis block: \<open>st.stop()\<close> after the message
  that no data was found, an index out of range, and a method called on \<open>None\<close>.
\<close>

datatype error = NoMarketData | IndexError | AttributeError

text \<open>\<open>xs[i]\<close> for a non-negative index: out of range raises.\<close>

definition index :: "'a list \<Rightarrow> nat \<Rightarrow> error + 'a" where
  "index xs i = (if i < length xs then Inr (xs ! i) else Inl IndexError)"

text \<open>\<open>str(v)\<close> inside an f-string, for a value that is a string or \<open>None\<close>.\<close>

definition py_str :: "str option \<Rightarrow> str" where
  "py_str v = (case v of None \<Rightarrow> lit ''None'' | Some s \<Rightarrow> s)"


section \<open>The outside world\<close>

text \<open>
  The collaborators are black boxes. One run sees them through an environment that fixes
  what each call answers:
  \<^item> \<open>yf.Ticker(symbol).history(period="1d")\<close> followed by lines 101 to 106 of
    \<open>get_stock_price\<close>: some statement of the \<open>try\<close> block raises, or the frame is empty,
    or the last row gives \<open>current\<close> and \<open>change\<close>, carried here already formatted by
    \<open>:.2f\<close> and \<open>:+.2f\<close> (floating point is not modelled);
  \<^item> \<open>yf.Ticker(symbol).news\<close>: raises, or is \<open>None\<close>, or is a list of dictionaries;
  \<^item> \<open>client.models.generate_content(model=..., contents=...)\<close> followed by
    \<open>response.text\<close>: raises an \<open>Exception\<close>, which is what the handler of \<open>Agent.work\<close>
    catches, or yields the text of the response, which is a string or \<open>None\<close> when the
    response carries no text. The answer may depend on how many calls were made before,
    so any pattern of failed and successful attempts is an environment;
  \<^item> the upper-case forms of the code points beyond ASCII, as \<open>str.upper\<close> takes them from
    the Python runtime.
\<close>

datatype history_reply = History_raises | History_empty | History_last str str

type_synonym news_item = "str \<rightharpoonup> str"

datatype news_reply = News_raises | News_none | News_list "news_item list"

datatype model_reply = Raises | Response "str option"

record environment =
  history :: "str \<Rightarrow> history_reply"
  news :: "str \<Rightarrow> news_reply"
  generate_content :: "nat \<Rightarrow> str \<Rightarrow> str \<Rightarrow> model_reply"
  unicode_upper :: "codepoint \<Rightarrow> str"

text \<open>
  Effects are recorded in a trace, oldest event first: the calls of the providers and of
  the model client, the waits, and what is written to the status boxes of the three
  agents (\<open>.text\<close>, \<open>.warning\<close>, \<open>.success\<close>). The other elements of the page (\<open>st.info\<close>,
  \<open>st.metric\<close>, \<open>st.markdown\<close>, \<open>st.error\<close> and the banner containers) are not recorded and
  are taken not to raise.
\<close>

datatype event =
    Ticker_history str
  | Ticker_news str
  | Generate_content str str
  | Sleep nat
  | Status_text str
  | Status_warning str
  | Status_success str

fun is_generate :: "event \<Rightarrow> bool" where
  "is_generate (Generate_content m p) = True"
| "is_generate e = False"

definition generate_calls :: "event list \<Rightarrow> nat" where
  "generate_calls tr = length (filter is_generate tr)"


section \<open>Helper functions\<close>

definition get_stock_price ::
  "environment \<Rightarrow> str \<Rightarrow> event list \<Rightarrow> str option \<times> event list" where
  "get_stock_price env symbol tr =
     (case history env symbol of
        History_raises \<Rightarrow> None
      | History_empty \<Rightarrow> None
      | History_last current change \<Rightarrow>
          Some (lit ''$'' @ current @ lit '' ('' @ change @ lit ''%)''),
      tr @ [Ticker_history symbol])"

definition headline :: "news_item \<Rightarrow> str" where
  "headline n = lit ''- '' @ py_str (n (lit ''title''))"

definition get_market_news ::
  "environment \<Rightarrow> str \<Rightarrow> event list \<Rightarrow> str \<times> event list" where
  "get_market_news env symbol tr =
     (case news env symbol of
        News_raises \<Rightarrow> lit ''Error fetching news.''
      | News_none \<Rightarrow> lit ''No specific news found.''
      | News_list items \<Rightarrow>
          if items = [] then lit ''No specific news found.''
          else join [newline] (map headline (take 3 items)),
      tr @ [Ticker_news symbol])"


section \<open>Agent\<close>

record agent =
  name :: str
  model :: str
  instructions :: str

definition final_prompt :: "agent \<Rightarrow> str \<Rightarrow> str \<Rightarrow> str" where
  "final_prompt ag context prompt =
     instructions ag @ [newline] @ lit ''DATA:'' @ [newline] @ context @ [newline]
       @ lit ''TASK: '' @ prompt"

text \<open>
  The loop \<open>for attempt in range(n)\<close> of \<open>Agent.work\<close>: a response ends the loop and the
  method with \<open>return response.text\<close>, whatever that text is; an exception is swallowed,
  followed by \<open>time.sleep(2)\<close> and the next round. The outer \<open>None\<close> is the loop running
  to its end, \<open>Some v\<close> is the method returning \<open>v\<close>.
\<close>

fun attempts ::
  "environment \<Rightarrow> agent \<Rightarrow> str \<Rightarrow> nat \<Rightarrow> event list
     \<Rightarrow> str option option \<times> event list" where
  "attempts env ag contents 0 tr = (None, tr)"
| "attempts env ag contents (Suc n) tr =
     (case generate_content env (generate_calls tr) (model ag) contents of
        Response v \<Rightarrow> (Some v, tr @ [Generate_content (model ag) contents])
      | Raises \<Rightarrow> attempts env ag contents n (tr @ [Generate_content (model ag) contents, Sleep 2]))"

definition technical_simulation :: str where
  "technical_simulation = lit ''SIMULATION: Trend is UP. RSI is 40. Strong Support at $130.''"

definition news_simulation :: str where
  "news_simulation =
     lit ''SIMULATION: Market sentiment is cautious but optimistic. Earnings report pending.''"

definition decision_simulation :: str where
  "decision_simulation = lit ''SIMULATION DECISION: BUY. (API Quota Reached).''"

definition simulation :: "agent \<Rightarrow> str" where
  "simulation ag =
     (if str_in (lit ''Technical'') (name ag) then technical_simulation
      else if str_in (lit ''News'') (name ag) then news_simulation
      else decision_simulation)"

definition analyzing :: "agent \<Rightarrow> str" where
  "analyzing ag = [0x1F504, 32] @ name ag @ lit '' is analyzing...''"

definition api_busy :: str where
  "api_busy = [0x26A0, 0xFE0F, 32] @ lit ''API busy, using simulation data.''"

text \<open>\<open>Agent.work\<close>: the value returned is a string or \<open>None\<close>.\<close>

definition work ::
  "environment \<Rightarrow> agent \<Rightarrow> str \<Rightarrow> str \<Rightarrow> event list \<Rightarrow> str option \<times> event list" where
  "work env ag context prompt tr =
     (case attempts env ag (final_prompt ag context prompt) 2
             (tr @ [Status_text (analyzing ag)]) of
        (Some v, tr') \<Rightarrow> (v, tr')
      | (None, tr') \<Rightarrow> (Some (simulation ag), tr' @ [Status_warning api_busy]))"


section \<open>The run-analysis block\<close>

datatype signal = BUY | SELL | HOLD

text \<open>The banner chosen at lines 232 to 238, for a result that is a string.\<close>

definition classify :: "(codepoint \<Rightarrow> str) \<Rightarrow> str \<Rightarrow> signal" where
  "classify table res =
     (if str_in (lit ''BUY'') (upper table res) then BUY
      else if str_in (lit ''SELL'') (upper table res) then SELL
      else HOLD)"

definition model_name :: str where
  "model_name = lit ''gemini-1.5-flash''"

definition agent_a :: agent where
  "agent_a = \<lparr>name = lit ''Quant'', model = model_name,
     instructions = lit ''Analyze technicals (Price, Trends). Be concise.''\<rparr>"

definition agent_b :: agent where
  "agent_b = \<lparr>name = lit ''Journalist'', model = model_name,
     instructions = lit ''Analyze sentiment from news headlines. Be concise.''\<rparr>"

definition agent_c :: agent where
  "agent_c = \<lparr>name = lit ''CIO'', model = model_name,
     instructions = lit ''You are a Chief Investment Officer. Decide BUY/SELL/HOLD.''\<rparr>"

definition final_context :: "str option \<Rightarrow> str option \<Rightarrow> str" where
  "final_context res_a res_b =
     lit ''Tech: '' @ py_str res_a @ [newline] @ lit ''News: '' @ py_str res_b"

definition complete :: str where
  "complete = [0x2705, 32] @ lit ''Complete''"

definition thinking :: str where
  "thinking = [0x1F914, 32] @ lit ''Thinking...''"

definition decision_made :: str where
  "decision_made = [0x2705, 32] @ lit ''Decision Made''"

text \<open>
  Lines 186 to 226: the three agents, one after the other, each with its status box. The
  results are what \<open>Agent.work\<close> returned, a string or \<open>None\<close> each.
\<close>

definition run_agents ::
  "environment \<Rightarrow> str \<Rightarrow> str \<Rightarrow> str \<Rightarrow> event list
     \<Rightarrow> (str option \<times> str option \<times> str option) \<times> event list" where
  "run_agents env ticker price_str news_str tr =
     (case work env agent_a price_str (lit ''Analyze '' @ ticker) tr of
        (res_a, tr_a) \<Rightarrow>
     (case work env agent_b news_str (lit ''Analyze sentiment for '' @ ticker)
             (tr_a @ [Status_success complete]) of
        (res_b, tr_b) \<Rightarrow>
     (case work env agent_c (final_context res_a res_b) (lit ''Write a final email decision.'')
             (tr_b @ [Status_success complete, Status_text thinking]) of
        (res_c, tr_c) \<Rightarrow>
          ((res_a, res_b, res_c), tr_c @ [Status_success decision_made]))))"

record analysis =
  metric_value :: str
  metric_delta :: str
  technical :: "str option"
  sentiment :: "str option"
  decision :: str
  banner :: signal

text \<open>
  Lines 168 to 238 for one press of the button. \<open>st.error\<close> followed by \<open>st.stop()\<close> is the
  failure \<open>NoMarketData\<close>; \<open>not price_str\<close> holds of \<open>None\<close> and of the empty string; an
  index out of range in the arguments of \<open>st.metric\<close> would escape as \<open>IndexError\<close>;
  \<open>res_c.upper()\<close> on a result that is \<open>None\<close> escapes as \<open>AttributeError\<close>.
\<close>

definition analyze ::
  "environment \<Rightarrow> str \<Rightarrow> event list \<Rightarrow> (error + analysis) \<times> event list" where
  "analyze env ticker tr =
     (case get_stock_price env ticker tr of
        (price, tr1) \<Rightarrow>
     (case get_market_news env ticker tr1 of
        (news_str, tr2) \<Rightarrow>
     (case price of
        None \<Rightarrow> (Inl NoMarketData, tr2)
      | Some price_str \<Rightarrow>
          if price_str = [] then (Inl NoMarketData, tr2)
          else
            (case index (split_on open_paren price_str) 0 of
               Inl e \<Rightarrow> (Inl e, tr2)
             | Inr value \<Rightarrow>
            (case index (split_on open_paren price_str) 1 of
               Inl e \<Rightarrow> (Inl e, tr2)
             | Inr d \<Rightarrow>
                 (case run_agents env ticker price_str news_str tr2 of
                    ((res_a, res_b, res_c), tr3) \<Rightarrow>
                      (case res_c of
                         None \<Rightarrow> (Inl AttributeError, tr3)
                       | Some res \<Rightarrow>
                           (Inr \<lparr>metric_value = value,
                                 metric_delta = strip_char close_paren d,
                                 technical = res_a, sentiment = res_b, decision = res,
                                 banner = classify (unicode_upper env) res\<rparr>, tr3))))))))"


section \<open>Concrete environments\<close>

text \<open>
  A table that knows the upper-case form of U+00DF, the sharp s, which is \<open>SS\<close>, and
  leaves every other code point as it is. It stands for the runtime in runs whose texts
  have no other code point beyond ASCII.
\<close>

definition sharp_s_table :: "codepoint \<Rightarrow> str" where
  "sharp_s_table c = (if c = 0xDF then lit ''SS'' else [c])"

text \<open>A symbol the price provider knows nothing about.\<close>

definition unknown_symbol_env :: environment where
  "unknown_symbol_env =
     \<lparr>history = (\<lambda>symbol. History_empty),
      news = (\<lambda>symbol. News_list []),
      generate_content = (\<lambda>k m contents. Response (Some (lit ''HOLD''))),
      unicode_upper = sharp_s_table\<rparr>"

text \<open>The price is known; the news provider and every call of the model client raise.\<close>

definition all_fail_env :: environment where
  "all_fail_env =
     \<lparr>history = (\<lambda>symbol. History_last (lit ''130.00'') (lit ''+2.00'')),
      news = (\<lambda>symbol. News_raises),
      generate_content = (\<lambda>k m contents. Raises),
      unicode_upper = sharp_s_table\<rparr>"

text \<open>
  Four stories, the second without a title; the first call of the model client raises and
  the later ones answer.
\<close>

definition busy_day_env :: environment where
  "busy_day_env =
     \<lparr>history = (\<lambda>symbol. History_last (lit ''130.00'') (lit ''+2.00'')),
      news = (\<lambda>symbol. News_list
        [[lit ''title'' \<mapsto> lit ''Chipmaker beats estimates''],
         Map.empty,
         [lit ''title'' \<mapsto> lit ''Shares rally''],
         [lit ''title'' \<mapsto> lit ''Analysts split'']]),
      generate_content = (\<lambda>k m contents.
        if k = 0 then Raises
        else if k = 1 then Response (Some (lit ''Trend is up.''))
        else if k = 2 then Response (Some (lit ''Sentiment is positive.''))
        else Response (Some (lit ''BUY: strong momentum''))),
      unicode_upper = sharp_s_table\<rparr>"

text \<open>Every call of the model client succeeds, with an empty text.\<close>

definition empty_reply_env :: environment where
  "empty_reply_env =
     \<lparr>history = (\<lambda>symbol. History_last (lit ''130.00'') (lit ''+2.00'')),
      news = (\<lambda>symbol. News_none),
      generate_content = (\<lambda>k m contents. Response (Some [])),
      unicode_upper = sharp_s_table\<rparr>"




section \<open>Containing a keyword, whatever the case\<close>







section \<open>The retry loop\<close>

lemma generate_calls_append [simp]:
  "generate_calls (xs @ ys) = generate_calls xs + generate_calls ys"
  by (simp add: generate_calls_def)

lemma generate_calls_simps [simp]:
  "generate_calls [] = 0"
  "generate_calls (Generate_content m p # tr) = Suc (generate_calls tr)"
  "generate_calls (Sleep k # tr) = generate_calls tr"
  "generate_calls (Status_text s # tr) = generate_calls tr"
  "generate_calls (Status_warning s # tr) = generate_calls tr"
  "generate_calls (Status_success s # tr) = generate_calls tr"
  "generate_calls (Ticker_history s # tr) = generate_calls tr"
  "generate_calls (Ticker_news s # tr) = generate_calls tr"
  by (simp_all add: generate_calls_def)

lemma attempts_calls_le:
  "generate_calls (snd (attempts env ag contents n tr)) \<le> generate_calls tr + n"
proof (induction n arbitrary: tr)
  case 0
  show ?case by simp
next
  case (Suc n)
  show ?case
  proof (cases "generate_content env (generate_calls tr) (model ag) contents")
    case Raises
    have "generate_calls (snd (attempts env ag contents n
            (tr @ [Generate_content (model ag) contents, Sleep 2])))
          \<le> generate_calls (tr @ [Generate_content (model ag) contents, Sleep 2]) + n"
      by (rule Suc.IH)
    with Raises show ?thesis by simp
  next
    case (Response reply)
    then show ?thesis by simp
  qed
qed

lemma attempts_extends:
  "prefix tr (snd (attempts env ag contents n tr))"
proof (induction n arbitrary: tr)
  case 0
  show ?case by simp
next
  case (Suc n)
  show ?case
  proof (cases "generate_content env (generate_calls tr) (model ag) contents")
    case Raises
    have "prefix (tr @ [Generate_content (model ag) contents, Sleep 2])
            (snd (attempts env ag contents n (tr @ [Generate_content (model ag) contents, Sleep 2])))"
      by (rule Suc.IH)
    then have "prefix tr
            (snd (attempts env ag contents n (tr @ [Generate_content (model ag) contents, Sleep 2])))"
      by (rule append_prefixD)
    with Raises show ?thesis by simp
  next
    case (Response reply)
    then show ?thesis by simp
  qed
qed

text \<open>
  The three ways \<open>Agent.work\<close> can go, with the exact trace of each: the first call
  answers; the first raises and the second answers; both raise.
\<close>

lemma work_first:
  assumes "generate_content env (generate_calls tr) (model ag) (final_prompt ag context prompt)
             = Response reply"
  shows "work env ag context prompt tr =
           (reply, tr @ [Status_text (analyzing ag),
                         Generate_content (model ag) (final_prompt ag context prompt)])"
  using assms by (simp add: work_def numeral_2_eq_2)

lemma work_second:
  assumes "generate_content env (generate_calls tr) (model ag) (final_prompt ag context prompt)
             = Raises"
    and "generate_content env (Suc (generate_calls tr)) (model ag) (final_prompt ag context prompt)
             = Response reply"
  shows "work env ag context prompt tr =
           (reply, tr @ [Status_text (analyzing ag),
                         Generate_content (model ag) (final_prompt ag context prompt), Sleep 2,
                         Generate_content (model ag) (final_prompt ag context prompt)])"
  using assms by (simp add: work_def numeral_2_eq_2)

lemma work_fallback:
  assumes "generate_content env (generate_calls tr) (model ag) (final_prompt ag context prompt)
             = Raises"
    and "generate_content env (Suc (generate_calls tr)) (model ag) (final_prompt ag context prompt)
             = Raises"
  shows "work env ag context prompt tr =
           (Some (simulation ag),
            tr @ [Status_text (analyzing ag),
                  Generate_content (model ag) (final_prompt ag context prompt), Sleep 2,
                  Generate_content (model ag) (final_prompt ag context prompt), Sleep 2,
                  Status_warning api_busy])"
  using assms by (simp add: work_def numeral_2_eq_2)

text \<open>
  C3. \<open>Agent.work\<close> always returns, after one or two calls of the model client and never
  more: either the first call answers and what it answers is returned; or the first call
  raises, the second answers and what it answers is returned; or both raise and the
  simulated text of the agent is returned. No exception of the client leaves \<open>work\<close>. For
  a loop of \<open>n\<close> rounds in place of the two of the source, at most \<open>n\<close> calls are made.
\<close>

theorem work_bounded_total:
  "generate_calls (snd (attempts env ag contents n tr)) \<le> generate_calls tr + n \<and>
   (\<exists>reply tr'.
     work env ag context prompt tr = (reply, tr') \<and>
     prefix tr tr' \<and>
     generate_calls tr' \<le> generate_calls tr + 2 \<and>
     (generate_content env (generate_calls tr) (model ag) (final_prompt ag context prompt)
          = Response reply \<and>
        generate_calls tr' = generate_calls tr + 1
      \<or> generate_content env (generate_calls tr) (model ag) (final_prompt ag context prompt)
          = Raises \<and>
        generate_content env (generate_calls tr + 1) (model ag) (final_prompt ag context prompt)
          = Response reply \<and>
        generate_calls tr' = generate_calls tr + 2
      \<or> generate_content env (generate_calls tr) (model ag) (final_prompt ag context prompt)
          = Raises \<and>
        generate_content env (generate_calls tr + 1) (model ag) (final_prompt ag context prompt)
          = Raises \<and>
        reply = Some (simulation ag) \<and>
        generate_calls tr' = generate_calls tr + 2))"
proof (rule conjI)
  show "generate_calls (snd (attempts env ag contents n tr)) \<le> generate_calls tr + n"
    by (rule attempts_calls_le)
next
  let ?c = "final_prompt ag context prompt"
  show "\<exists>reply tr'.
     work env ag context prompt tr = (reply, tr') \<and>
     prefix tr tr' \<and>
     generate_calls tr' \<le> generate_calls tr + 2 \<and>
     (generate_content env (generate_calls tr) (model ag) ?c = Response reply \<and>
        generate_calls tr' = generate_calls tr + 1
      \<or> generate_content env (generate_calls tr) (model ag) ?c = Raises \<and>
        generate_content env (generate_calls tr + 1) (model ag) ?c = Response reply \<and>
        generate_calls tr' = generate_calls tr + 2
      \<or> generate_content env (generate_calls tr) (model ag) ?c = Raises \<and>
        generate_content env (generate_calls tr + 1) (model ag) ?c = Raises \<and>
        reply = Some (simulation ag) \<and>
        generate_calls tr' = generate_calls tr + 2)"
  proof (cases "generate_content env (generate_calls tr) (model ag) ?c")
    case (Response r0)
    from work_first [OF this] show ?thesis
      using Response by simp
  next
    case first: Raises
    show ?thesis
    proof (cases "generate_content env (Suc (generate_calls tr)) (model ag) ?c")
      case (Response r1)
      from work_second [OF first this] show ?thesis
        using first Response by simp
    next
      case Raises
      from work_fallback [OF first this] show ?thesis
        using first Raises by simp
    qed
  qed
qed


section \<open>The trace only grows\<close>

lemma work_extends: "prefix tr (snd (work env ag context prompt tr))"
proof -
  let ?tr1 = "tr @ [Status_text (analyzing ag)]"
  let ?res = "attempts env ag (final_prompt ag context prompt) 2 ?tr1"
  have "prefix ?tr1 (snd ?res)"
    by (rule attempts_extends)
  then have *: "prefix tr (snd ?res)"
    by (rule append_prefixD)
  show ?thesis
  proof (cases ?res)
    case (Pair r tr')
    with * have "prefix tr tr'" by simp
    then have "prefix tr (tr' @ [Status_warning api_busy])"
      by (rule prefix_prefix)
    with Pair \<open>prefix tr tr'\<close> show ?thesis
      by (cases r) (simp_all add: work_def)
  qed
qed

lemma work_calls_client:
  "Generate_content (model ag) (final_prompt ag context prompt)
     \<in> set (snd (work env ag context prompt tr))"
proof (cases "generate_content env (generate_calls tr) (model ag) (final_prompt ag context prompt)")
  case (Response r0)
  from work_first [OF this] show ?thesis by simp
next
  case first: Raises
  show ?thesis
  proof (cases "generate_content env (Suc (generate_calls tr)) (model ag)
                  (final_prompt ag context prompt)")
    case (Response r1)
    from work_second [OF first this] show ?thesis by simp
  next
    case Raises
    from work_fallback [OF first this] show ?thesis by simp
  qed
qed

text \<open>The steps of \<open>run_agents\<close>, each agent starting from the trace the one before left.\<close>

lemma run_agents_steps:
  "\<exists>a tr_a b tr_b c tr_c.
     work env agent_a p (lit ''Analyze '' @ ticker) tr = (a, tr_a) \<and>
     work env agent_b n (lit ''Analyze sentiment for '' @ ticker)
       (tr_a @ [Status_success complete]) = (b, tr_b) \<and>
     work env agent_c (final_context a b) (lit ''Write a final email decision.'')
       (tr_b @ [Status_success complete, Status_text thinking]) = (c, tr_c) \<and>
     run_agents env ticker p n tr = ((a, b, c), tr_c @ [Status_success decision_made])"
proof -
  obtain a tr_a where a: "work env agent_a p (lit ''Analyze '' @ ticker) tr = (a, tr_a)"
    by (cases "work env agent_a p (lit ''Analyze '' @ ticker) tr")
  obtain b tr_b where
    b: "work env agent_b n (lit ''Analyze sentiment for '' @ ticker)
          (tr_a @ [Status_success complete]) = (b, tr_b)"
    by (cases "work env agent_b n (lit ''Analyze sentiment for '' @ ticker)
          (tr_a @ [Status_success complete])")
  obtain c tr_c where
    c: "work env agent_c (final_context a b) (lit ''Write a final email decision.'')
          (tr_b @ [Status_success complete, Status_text thinking]) = (c, tr_c)"
    by (cases "work env agent_c (final_context a b) (lit ''Write a final email decision.'')
          (tr_b @ [Status_success complete, Status_text thinking])")
  from a b c have
    "run_agents env ticker p n tr = ((a, b, c), tr_c @ [Status_success decision_made])"
    by (simp add: run_agents_def)
  with a b c show ?thesis by blast
qed

lemma run_agents_extends:
  "prefix tr (snd (run_agents env ticker p n tr))"
proof -
  from run_agents_steps [of env p ticker tr n] obtain a tr_a b tr_b c tr_c where
    a: "work env agent_a p (lit ''Analyze '' @ ticker) tr = (a, tr_a)"
    and b: "work env agent_b n (lit ''Analyze sentiment for '' @ ticker)
       (tr_a @ [Status_success complete]) = (b, tr_b)"
    and c: "work env agent_c (final_context a b) (lit ''Write a final email decision.'')
       (tr_b @ [Status_success complete, Status_text thinking]) = (c, tr_c)"
    and run: "run_agents env ticker p n tr = ((a, b, c), tr_c @ [Status_success decision_made])"
    by blast
  have "prefix tr tr_a"
    using work_extends [of tr env agent_a p "lit ''Analyze '' @ ticker"] a by simp
  moreover have "prefix (tr_a @ [Status_success complete]) tr_b"
    using work_extends [of "tr_a @ [Status_success complete]" env agent_b n
        "lit ''Analyze sentiment for '' @ ticker"] b
    by simp
  then have "prefix tr_a tr_b"
    by (rule append_prefixD)
  moreover have "prefix (tr_b @ [Status_success complete, Status_text thinking]) tr_c"
    using work_extends [of "tr_b @ [Status_success complete, Status_text thinking]" env agent_c
        "final_context a b" "lit ''Write a final email decision.''"] c
    by simp
  then have "prefix tr_b tr_c"
    by (rule append_prefixD)
  ultimately have "prefix tr tr_c"
    by (meson prefix_order.trans)
  then have "prefix tr (tr_c @ [Status_success decision_made])"
    by (rule prefix_prefix)
  with run show ?thesis
    by simp
qed


section \<open>The price summary\<close>

lemma split_on_not_Nil [simp]: "split_on sep s \<noteq> []"
  by (induction s) (auto split: list.splits)

lemma length_split_on: "length (split_on sep s) = Suc (count_list s sep)"
proof (induction s)
  case Nil
  show ?case by simp
next
  case (Cons c cs)
  then show ?case
    by (cases "split_on sep cs") auto
qed

lemma index_split_on:
  assumes "sep \<in> set s"
  shows "\<exists>v d. index (split_on sep s) 0 = Inr v \<and> index (split_on sep s) 1 = Inr d"
proof -
  from assms have "count_list s sep \<noteq> 0"
    by (simp add: count_list_0_iff)
  then have "2 \<le> length (split_on sep s)"
    unfolding length_split_on by arith
  then show ?thesis
    by (simp only: index_def) simp
qed

lemma price_summary_splits:
  "\<exists>v d. index (split_on open_paren (lit ''$'' @ current @ lit '' ('' @ change @ lit ''%)'')) 0
            = Inr v \<and>
         index (split_on open_paren (lit ''$'' @ current @ lit '' ('' @ change @ lit ''%)'')) 1
            = Inr d"
  by (rule index_split_on) (simp add: lit_def open_paren_def)

lemma get_stock_price_trace [simp]:
  "snd (get_stock_price env ticker tr) = tr @ [Ticker_history ticker]"
  by (simp add: get_stock_price_def)

lemma get_market_news_trace [simp]:
  "snd (get_market_news env ticker tr) = tr @ [Ticker_news ticker]"
  by (simp add: get_market_news_def)

lemma get_stock_price_Some:
  "fst (get_stock_price env ticker tr) = Some p \<longleftrightarrow>
     (\<exists>current change. history env ticker = History_last current change \<and>
        p = lit ''$'' @ current @ lit '' ('' @ change @ lit ''%)'')"
  by (auto simp add: get_stock_price_def split: history_reply.splits)

text \<open>The two ways the run-analysis block can go.\<close>

lemma analyze_absent:
  assumes "fst (get_stock_price env ticker tr) = None"
  shows "analyze env ticker tr =
           (Inl NoMarketData, tr @ [Ticker_history ticker, Ticker_news ticker])"
proof -
  obtain news_str where
    "get_market_news env ticker (tr @ [Ticker_history ticker])
       = (news_str, tr @ [Ticker_history ticker, Ticker_news ticker])"
    by (simp add: get_market_news_def)
  moreover have "get_stock_price env ticker tr = (None, tr @ [Ticker_history ticker])"
    using assms by (simp add: prod_eq_iff)
  ultimately show ?thesis
    by (simp add: analyze_def)
qed

lemma analyze_present:
  assumes "fst (get_stock_price env ticker tr) = Some p"
  shows "\<exists>v d a tr_a b tr_b c tr_c.
     index (split_on open_paren p) 0 = Inr v \<and>
     index (split_on open_paren p) 1 = Inr d \<and>
     work env agent_a p (lit ''Analyze '' @ ticker)
       (tr @ [Ticker_history ticker, Ticker_news ticker]) = (a, tr_a) \<and>
     work env agent_b (fst (get_market_news env ticker (tr @ [Ticker_history ticker])))
       (lit ''Analyze sentiment for '' @ ticker) (tr_a @ [Status_success complete]) = (b, tr_b) \<and>
     work env agent_c (final_context a b) (lit ''Write a final email decision.'')
       (tr_b @ [Status_success complete, Status_text thinking]) = (c, tr_c) \<and>
     analyze env ticker tr =
       (case c of
          None \<Rightarrow> Inl AttributeError
        | Some res \<Rightarrow>
            Inr \<lparr>metric_value = v, metric_delta = strip_char close_paren d,
                 technical = a, sentiment = b, decision = res,
                 banner = classify (unicode_upper env) res\<rparr>,
        tr_c @ [Status_success decision_made])"
proof -
  from assms obtain current change where
    p: "p = lit ''$'' @ current @ lit '' ('' @ change @ lit ''%)''"
    by (auto simp add: get_stock_price_Some)
  obtain v d where
    v: "index (split_on open_paren p) 0 = Inr v" and d: "index (split_on open_paren p) 1 = Inr d"
    using price_summary_splits [of current change] p by auto
  have price: "get_stock_price env ticker tr = (Some p, tr @ [Ticker_history ticker])"
    using assms by (simp add: prod_eq_iff)
  define n where "n = fst (get_market_news env ticker (tr @ [Ticker_history ticker]))"
  have news: "get_market_news env ticker (tr @ [Ticker_history ticker])
       = (n, tr @ [Ticker_history ticker, Ticker_news ticker])"
    by (simp add: n_def prod_eq_iff)
  from run_agents_steps [of env p ticker "tr @ [Ticker_history ticker, Ticker_news ticker]" n]
  obtain a tr_a b tr_b c tr_c where
    a: "work env agent_a p (lit ''Analyze '' @ ticker)
          (tr @ [Ticker_history ticker, Ticker_news ticker]) = (a, tr_a)"
    and b: "work env agent_b n (lit ''Analyze sentiment for '' @ ticker)
          (tr_a @ [Status_success complete]) = (b, tr_b)"
    and c: "work env agent_c (final_context a b) (lit ''Write a final email decision.'')
          (tr_b @ [Status_success complete, Status_text thinking]) = (c, tr_c)"
    and run: "run_agents env ticker p n (tr @ [Ticker_history ticker, Ticker_news ticker])
          = ((a, b, c), tr_c @ [Status_success decision_made])"
    by blast
  have "p \<noteq> []"
    using p by (simp add: lit_def)
  with v d have "analyze env ticker tr =
       (case c of
          None \<Rightarrow> Inl AttributeError
        | Some res \<Rightarrow>
            Inr \<lparr>metric_value = v, metric_delta = strip_char close_paren d,
                 technical = a, sentiment = b, decision = res,
                 banner = classify (unicode_upper env) res\<rparr>,
        tr_c @ [Status_success decision_made])"
    by (simp add: analyze_def price news run split: option.splits)
  with v d a b c show ?thesis
    unfolding n_def by blast
qed

lemma work_None:
  assumes "fst (work env ag context prompt tr) = None"
  shows "\<exists>k. generate_content env k (model ag) (final_prompt ag context prompt) = Response None"
proof (cases "generate_content env (generate_calls tr) (model ag) (final_prompt ag context prompt)")
  case (Response r0)
  from work_first [OF this] assms Response show ?thesis
    by auto
next
  case first: Raises
  show ?thesis
  proof (cases "generate_content env (Suc (generate_calls tr)) (model ag)
                  (final_prompt ag context prompt)")
    case (Response r1)
    from work_second [OF first this] assms Response show ?thesis
      by auto
  next
    case Raises
    from work_fallback [OF first this] assms show ?thesis
      by simp
  qed
qed


section \<open>Failure of the run\<close>

text \<open>
  C4. When \<open>get_stock_price\<close> returns \<open>None\<close> for the symbol, the run stops with
  \<open>NoMarketData\<close>. All it has done by then is to ask the provider for the history and for
  the news: no agent was started (no status message) and the model client was not called.
\<close>

theorem analyze_no_market_data:
  assumes "fst (get_stock_price env ticker tr) = None"
  shows "analyze env ticker tr
           = (Inl NoMarketData, tr @ [Ticker_history ticker, Ticker_news ticker])
         \<and> generate_calls (snd (analyze env ticker tr)) = generate_calls tr"
  using analyze_absent [OF assms] by simp

theorem analyze_no_market_data_witness:
  "fst (get_stock_price unknown_symbol_env (lit ''ZZZINVALID'') []) = None
   \<and> analyze unknown_symbol_env (lit ''ZZZINVALID'') []
       = (Inl NoMarketData,
          [Ticker_history (lit ''ZZZINVALID''), Ticker_news (lit ''ZZZINVALID'')])
   \<and> generate_calls (snd (analyze unknown_symbol_env (lit ''ZZZINVALID'') [])) = 0"
proof -
  have h: "fst (get_stock_price unknown_symbol_env (lit ''ZZZINVALID'') []) = None"
    by (simp add: get_stock_price_def unknown_symbol_env_def)
  show ?thesis
    using h analyze_no_market_data [OF h] by simp
qed

text \<open>
  C10. Every run asks the provider for the history and then for the news before anything
  else happens, so the news is fetched also when the price is absent: that run stops with
  \<open>NoMarketData\<close> and its trace ends with the news fetch.
\<close>

theorem news_fetched_before_price_check:
  "(\<exists>rest. snd (analyze env ticker tr)
             = tr @ [Ticker_history ticker, Ticker_news ticker] @ rest)
   \<and> (fst (get_stock_price env ticker tr) = None \<longrightarrow>
        fst (analyze env ticker tr) = Inl NoMarketData \<and>
        snd (analyze env ticker tr) = tr @ [Ticker_history ticker, Ticker_news ticker])"
proof (cases "fst (get_stock_price env ticker tr)")
  case None
  from analyze_absent [OF this] show ?thesis
    by simp
next
  case (Some p)
  let ?tr2 = "tr @ [Ticker_history ticker, Ticker_news ticker]"
  from analyze_present [OF Some] obtain a tr_a b tr_b c tr_c where
    a: "work env agent_a p (lit ''Analyze '' @ ticker) ?tr2 = (a, tr_a)"
    and b: "work env agent_b (fst (get_market_news env ticker (tr @ [Ticker_history ticker])))
       (lit ''Analyze sentiment for '' @ ticker) (tr_a @ [Status_success complete]) = (b, tr_b)"
    and c: "work env agent_c (final_context a b) (lit ''Write a final email decision.'')
       (tr_b @ [Status_success complete, Status_text thinking]) = (c, tr_c)"
    and run: "snd (analyze env ticker tr) = tr_c @ [Status_success decision_made]"
    by auto
  have "prefix ?tr2 tr_a"
    using work_extends [of ?tr2 env agent_a p "lit ''Analyze '' @ ticker"] a by simp
  moreover have "prefix (tr_a @ [Status_success complete]) tr_b"
    using work_extends [of "tr_a @ [Status_success complete]" env agent_b
        "fst (get_market_news env ticker (tr @ [Ticker_history ticker]))"
        "lit ''Analyze sentiment for '' @ ticker"] b
    by simp
  then have "prefix tr_a tr_b"
    by (rule append_prefixD)
  moreover have "prefix (tr_b @ [Status_success complete, Status_text thinking]) tr_c"
    using work_extends [of "tr_b @ [Status_success complete, Status_text thinking]" env agent_c
        "final_context a b" "lit ''Write a final email decision.''"] c
    by simp
  then have "prefix tr_b tr_c"
    by (rule append_prefixD)
  ultimately have "prefix ?tr2 tr_c"
    by (meson prefix_order.trans)
  then have "prefix ?tr2 (snd (analyze env ticker tr))"
    unfolding run by (rule prefix_prefix)
  then obtain rest where "snd (analyze env ticker tr) = ?tr2 @ rest"
    by (auto simp add: prefix_def)
  with Some show ?thesis
    by simp
qed

theorem news_fetched_before_price_check_witness:
  "fst (get_stock_price unknown_symbol_env (lit ''ZZZINVALID'') []) = None
   \<and> fst (analyze unknown_symbol_env (lit ''ZZZINVALID'') []) = Inl NoMarketData
   \<and> snd (analyze unknown_symbol_env (lit ''ZZZINVALID'') [])
       = [Ticker_history (lit ''ZZZINVALID''), Ticker_news (lit ''ZZZINVALID'')]"
proof -
  have h: "fst (get_stock_price unknown_symbol_env (lit ''ZZZINVALID'') []) = None"
    by (simp add: get_stock_price_def unknown_symbol_env_def)
  show ?thesis
    using h news_fetched_before_price_check [of unknown_symbol_env "lit ''ZZZINVALID''" "[]"]
    by simp
qed

lemmas run_defs =
  analyze_def run_agents_def work_def get_stock_price_def get_market_news_def
  final_context_def final_prompt_def index_def strip_char_def classify_def upper_def
  upper_codepoint_def simulation_def agent_a_def agent_b_def agent_c_def py_str_def
  decision_simulation_def technical_simulation_def news_simulation_def
  open_paren_def close_paren_def lit_def numeral_2_eq_2



lemma model_of_agents:
  "model agent_a = model_name" "model agent_b = model_name" "model agent_c = model_name"
  by (simp_all add: agent_a_def agent_b_def agent_c_def)





section \<open>Headlines\<close>

lemma join_not_Nil:
  assumes "xs \<noteq> []" and "\<And>x. x \<in> set xs \<Longrightarrow> x \<noteq> []"
  shows "join sep xs \<noteq> []"
proof (cases xs)
  case Nil
  with assms(1) show ?thesis by simp
next
  case (Cons x ys)
  with assms(2) have "x \<noteq> []" by simp
  with Cons show ?thesis
    by (cases ys) simp_all
qed

lemma headline_not_Nil [simp]: "headline n \<noteq> []"
  by (simp add: headline_def lit_def)

lemma headlines_not_Nil:
  assumes "items \<noteq> []"
  shows "join [newline] (map headline (take 3 items)) \<noteq> []"
proof (rule join_not_Nil)
  from assms show "map headline (take 3 items) \<noteq> []"
    by simp
next
  fix x
  assume "x \<in> set (map headline (take 3 items))"
  then show "x \<noteq> []"
    by auto
qed

text \<open>
  C9. \<open>get_market_news\<close> returns a non-empty string for every symbol and every behaviour
  of the provider: \<open>Error fetching news.\<close> when the provider raises,
  \<open>No specific news found.\<close> when it has no story, and otherwise the first three stories
  at most, one \<open>- title\<close> per story, joined by newlines.
\<close>

theorem get_market_news_nonempty:
  "fst (get_market_news env symbol tr) \<noteq> []
   \<and> (case news env symbol of
        News_raises \<Rightarrow> fst (get_market_news env symbol tr) = lit ''Error fetching news.''
      | News_none \<Rightarrow> fst (get_market_news env symbol tr) = lit ''No specific news found.''
      | News_list items \<Rightarrow>
          if items = []
          then fst (get_market_news env symbol tr) = lit ''No specific news found.''
          else fst (get_market_news env symbol tr)
                 = join [newline]
                     (map (\<lambda>n. lit ''- '' @ py_str (n (lit ''title''))) (take 3 items))
               \<and> 1 \<le> length (take 3 items) \<and> length (take 3 items) \<le> 3)"
proof (cases "news env symbol")
  case News_raises
  then show ?thesis by (simp add: get_market_news_def) (simp add: lit_def)
next
  case News_none
  then show ?thesis by (simp add: get_market_news_def) (simp add: lit_def)
next
  case (News_list items)
  show ?thesis
  proof (cases "items = []")
    case True
    with News_list show ?thesis by (simp add: get_market_news_def) (simp add: lit_def)
  next
    case False
    have eq: "fst (get_market_news env symbol tr) = join [newline] (map headline (take 3 items))"
      using News_list False by (simp add: get_market_news_def)
    have "join [newline] (map headline (take 3 items)) \<noteq> []"
      using False by (rule headlines_not_Nil)
    moreover have "headline = (\<lambda>n. lit ''- '' @ py_str (n (lit ''title'')))"
      by (rule ext) (simp add: headline_def)
    moreover have "1 \<le> length (take 3 items)"
      using False by (cases items) simp_all
    ultimately show ?thesis
      using News_list False eq by simp
  qed
qed

theorem get_market_news_nonempty_witness:
  "fst (get_market_news busy_day_env (lit ''NVDA'') [])
     = lit ''- Chipmaker beats estimates'' @ [newline] @ lit ''- None'' @ [newline]
         @ lit ''- Shares rally''
   \<and> fst (get_market_news busy_day_env (lit ''NVDA'') []) \<noteq> []"
  using get_market_news_nonempty [of busy_day_env "lit ''NVDA''" "[]"]
  by (simp add: busy_day_env_def py_str_def lit_def)


section \<open>What the agents are given\<close>

lemma supervisor_steps:
  assumes "fst (get_stock_price env ticker tr) = Some p"
  shows "\<exists>a tr_a b tr_b c tr_c.
     work env agent_a p (lit ''Analyze '' @ ticker)
       (tr @ [Ticker_history ticker, Ticker_news ticker]) = (a, tr_a) \<and>
     work env agent_b (fst (get_market_news env ticker (tr @ [Ticker_history ticker])))
       (lit ''Analyze sentiment for '' @ ticker) (tr_a @ [Status_success complete])
       = (b, tr_b) \<and>
     work env agent_c (lit ''Tech: '' @ py_str a @ [newline] @ lit ''News: '' @ py_str b)
       (lit ''Write a final email decision.'')
       (tr_b @ [Status_success complete, Status_text thinking]) = (c, tr_c) \<and>
     snd (analyze env ticker tr) = tr_c @ [Status_success decision_made] \<and>
     Generate_content model_name
       (final_prompt agent_b (fst (get_market_news env ticker (tr @ [Ticker_history ticker])))
          (lit ''Analyze sentiment for '' @ ticker)) \<in> set (snd (analyze env ticker tr)) \<and>
     Generate_content model_name
       (final_prompt agent_c (lit ''Tech: '' @ py_str a @ [newline] @ lit ''News: '' @ py_str b)
          (lit ''Write a final email decision.'')) \<in> set (snd (analyze env ticker tr)) \<and>
     (c = None \<and> fst (analyze env ticker tr) = Inl AttributeError
      \<or> (\<exists>r. fst (analyze env ticker tr) = Inr r \<and>
             technical r = a \<and> sentiment r = b \<and> c = Some (decision r)))"
proof -
  let ?n = "fst (get_market_news env ticker (tr @ [Ticker_history ticker]))"
  from analyze_present [OF assms] obtain v d a tr_a b tr_b c tr_c where
    a: "work env agent_a p (lit ''Analyze '' @ ticker)
          (tr @ [Ticker_history ticker, Ticker_news ticker]) = (a, tr_a)"
    and b: "work env agent_b ?n
          (lit ''Analyze sentiment for '' @ ticker) (tr_a @ [Status_success complete]) = (b, tr_b)"
    and c: "work env agent_c (final_context a b) (lit ''Write a final email decision.'')
          (tr_b @ [Status_success complete, Status_text thinking]) = (c, tr_c)"
    and run: "analyze env ticker tr =
       (case c of
          None \<Rightarrow> Inl AttributeError
        | Some res \<Rightarrow>
            Inr \<lparr>metric_value = v, metric_delta = strip_char close_paren d,
                 technical = a, sentiment = b, decision = res,
                 banner = classify (unicode_upper env) res\<rparr>,
        tr_c @ [Status_success decision_made])"
    by blast
  let ?ctx = "lit ''Tech: '' @ py_str a @ [newline] @ lit ''News: '' @ py_str b"
  have ctx: "final_context a b = ?ctx"
    by (simp add: final_context_def)
  note c' = c [unfolded ctx]
  from run have tr': "snd (analyze env ticker tr) = tr_c @ [Status_success decision_made]"
    by simp
  have "Generate_content (model agent_c)
          (final_prompt agent_c ?ctx (lit ''Write a final email decision.''))
        \<in> set (snd (work env agent_c ?ctx (lit ''Write a final email decision.'')
                       (tr_b @ [Status_success complete, Status_text thinking])))"
    by (rule work_calls_client)
  then have "Generate_content model_name
          (final_prompt agent_c ?ctx (lit ''Write a final email decision.'')) \<in> set tr_c"
    unfolding c' model_of_agents by (simp only: snd_conv)
  then have gen_c: "Generate_content model_name
          (final_prompt agent_c ?ctx (lit ''Write a final email decision.''))
        \<in> set (snd (analyze env ticker tr))"
    unfolding tr' by simp
  have "Generate_content (model agent_b)
          (final_prompt agent_b ?n (lit ''Analyze sentiment for '' @ ticker))
        \<in> set (snd (work env agent_b ?n (lit ''Analyze sentiment for '' @ ticker)
                       (tr_a @ [Status_success complete])))"
    by (rule work_calls_client)
  then have "Generate_content model_name
          (final_prompt agent_b ?n (lit ''Analyze sentiment for '' @ ticker)) \<in> set tr_b"
    unfolding b model_of_agents by (simp only: snd_conv)
  moreover have "prefix (tr_b @ [Status_success complete, Status_text thinking]) tr_c"
    using work_extends [of "tr_b @ [Status_success complete, Status_text thinking]" env agent_c
        ?ctx "lit ''Write a final email decision.''"]
    unfolding c' by (simp only: snd_conv)
  then have "prefix tr_b tr_c"
    by (rule append_prefixD)
  ultimately have "Generate_content model_name
          (final_prompt agent_b ?n (lit ''Analyze sentiment for '' @ ticker)) \<in> set tr_c"
    using set_mono_prefix by blast
  then have gen_b: "Generate_content model_name
          (final_prompt agent_b ?n (lit ''Analyze sentiment for '' @ ticker))
        \<in> set (snd (analyze env ticker tr))"
    unfolding tr' by simp
  have "c = None \<and> fst (analyze env ticker tr) = Inl AttributeError
      \<or> (\<exists>r. fst (analyze env ticker tr) = Inr r \<and>
             technical r = a \<and> sentiment r = b \<and> c = Some (decision r))"
    using run by (cases c) simp_all
  with a b c' tr' gen_b gen_c show ?thesis
    by blast
qed

text \<open>
  C8. In every run that reaches the agents, the supervisor (agent C) works on the context
  \<open>Tech: \<close> followed by the result of agent A, a newline, and \<open>News: \<close> followed by the
  result of agent B; the model client is called with the prompt built from that context.
  The context is a function of the two results alone. In a run that ends with a decision
  the two results are the technical and the sentiment text of the analysis.
\<close>

theorem supervisor_context:
  "(\<forall>r tr'. analyze env ticker tr = (Inr r, tr') \<longrightarrow>
     (\<exists>p tr_a tr_b tr_c.
        fst (get_stock_price env ticker tr) = Some p \<and>
        work env agent_a p (lit ''Analyze '' @ ticker)
          (tr @ [Ticker_history ticker, Ticker_news ticker]) = (technical r, tr_a) \<and>
        work env agent_b (fst (get_market_news env ticker (tr @ [Ticker_history ticker])))
          (lit ''Analyze sentiment for '' @ ticker) (tr_a @ [Status_success complete])
          = (sentiment r, tr_b) \<and>
        work env agent_c
          (lit ''Tech: '' @ py_str (technical r) @ [newline]
             @ lit ''News: '' @ py_str (sentiment r))
          (lit ''Write a final email decision.'')
          (tr_b @ [Status_success complete, Status_text thinking])
          = (Some (decision r), tr_c) \<and>
        tr' = tr_c @ [Status_success decision_made] \<and>
        Generate_content model_name
          (final_prompt agent_c
             (lit ''Tech: '' @ py_str (technical r) @ [newline]
                @ lit ''News: '' @ py_str (sentiment r))
             (lit ''Write a final email decision.'')) \<in> set tr'))
   \<and> (\<forall>p. fst (get_stock_price env ticker tr) = Some p \<longrightarrow>
     (\<exists>a tr_a b tr_b c tr_c.
        work env agent_a p (lit ''Analyze '' @ ticker)
          (tr @ [Ticker_history ticker, Ticker_news ticker]) = (a, tr_a) \<and>
        work env agent_b (fst (get_market_news env ticker (tr @ [Ticker_history ticker])))
          (lit ''Analyze sentiment for '' @ ticker) (tr_a @ [Status_success complete])
          = (b, tr_b) \<and>
        work env agent_c (lit ''Tech: '' @ py_str a @ [newline] @ lit ''News: '' @ py_str b)
          (lit ''Write a final email decision.'')
          (tr_b @ [Status_success complete, Status_text thinking]) = (c, tr_c) \<and>
        snd (analyze env ticker tr) = tr_c @ [Status_success decision_made] \<and>
        Generate_content model_name
          (final_prompt agent_c
             (lit ''Tech: '' @ py_str a @ [newline] @ lit ''News: '' @ py_str b)
             (lit ''Write a final email decision.'')) \<in> set (snd (analyze env ticker tr))))"
proof (intro conjI allI impI)
  fix r tr'
  assume run: "analyze env ticker tr = (Inr r, tr')"
  show "\<exists>p tr_a tr_b tr_c.
        fst (get_stock_price env ticker tr) = Some p \<and>
        work env agent_a p (lit ''Analyze '' @ ticker)
          (tr @ [Ticker_history ticker, Ticker_news ticker]) = (technical r, tr_a) \<and>
        work env agent_b (fst (get_market_news env ticker (tr @ [Ticker_history ticker])))
          (lit ''Analyze sentiment for '' @ ticker) (tr_a @ [Status_success complete])
          = (sentiment r, tr_b) \<and>
        work env agent_c
          (lit ''Tech: '' @ py_str (technical r) @ [newline]
             @ lit ''News: '' @ py_str (sentiment r))
          (lit ''Write a final email decision.'')
          (tr_b @ [Status_success complete, Status_text thinking])
          = (Some (decision r), tr_c) \<and>
        tr' = tr_c @ [Status_success decision_made] \<and>
        Generate_content model_name
          (final_prompt agent_c
             (lit ''Tech: '' @ py_str (technical r) @ [newline]
                @ lit ''News: '' @ py_str (sentiment r))
             (lit ''Write a final email decision.'')) \<in> set tr'"
  proof (cases "fst (get_stock_price env ticker tr)")
    case None
    from analyze_absent [OF this] run show ?thesis by simp
  next
    case (Some p)
    from supervisor_steps [OF Some] run Some show ?thesis
      by (auto simp add: prod_eq_iff)
  qed
next
  fix p
  assume "fst (get_stock_price env ticker tr) = Some p"
  from supervisor_steps [OF this]
  show "\<exists>a tr_a b tr_b c tr_c.
        work env agent_a p (lit ''Analyze '' @ ticker)
          (tr @ [Ticker_history ticker, Ticker_news ticker]) = (a, tr_a) \<and>
        work env agent_b (fst (get_market_news env ticker (tr @ [Ticker_history ticker])))
          (lit ''Analyze sentiment for '' @ ticker) (tr_a @ [Status_success complete])
          = (b, tr_b) \<and>
        work env agent_c (lit ''Tech: '' @ py_str a @ [newline] @ lit ''News: '' @ py_str b)
          (lit ''Write a final email decision.'')
          (tr_b @ [Status_success complete, Status_text thinking]) = (c, tr_c) \<and>
        snd (analyze env ticker tr) = tr_c @ [Status_success decision_made] \<and>
        Generate_content model_name
          (final_prompt agent_c
             (lit ''Tech: '' @ py_str a @ [newline] @ lit ''News: '' @ py_str b)
             (lit ''Write a final email decision.'')) \<in> set (snd (analyze env ticker tr))"
    by blast
qed

theorem supervisor_context_witness:
  "fst (analyze busy_day_env (lit ''NVDA'') [])
     = Inr \<lparr>metric_value = lit ''$130.00 '', metric_delta = lit ''+2.00%'',
            technical = Some (lit ''Trend is up.''),
            sentiment = Some (lit ''Sentiment is positive.''),
            decision = lit ''BUY: strong momentum'', banner = BUY\<rparr>
   \<and> Generate_content model_name
       (final_prompt agent_c
          (lit ''Tech: '' @ lit ''Trend is up.'' @ [newline]
             @ lit ''News: '' @ lit ''Sentiment is positive.'')
          (lit ''Write a final email decision.''))
     \<in> set (snd (analyze busy_day_env (lit ''NVDA'') []))"
proof -
  let ?r = "\<lparr>metric_value = lit ''$130.00 '', metric_delta = lit ''+2.00%'',
            technical = Some (lit ''Trend is up.''),
            sentiment = Some (lit ''Sentiment is positive.''),
            decision = lit ''BUY: strong momentum'', banner = BUY\<rparr>"
  have run: "fst (analyze busy_day_env (lit ''NVDA'') []) = Inr ?r"
    by (simp add: run_defs busy_day_env_def)
  then have h: "analyze busy_day_env (lit ''NVDA'') []
      = (Inr ?r, snd (analyze busy_day_env (lit ''NVDA'') []))"
    by (simp add: prod_eq_iff)
  from supervisor_context [of busy_day_env "lit ''NVDA''" "[]"] h have
    "Generate_content model_name
       (final_prompt agent_c
          (lit ''Tech: '' @ py_str (technical ?r) @ [newline]
             @ lit ''News: '' @ py_str (sentiment ?r))
          (lit ''Write a final email decision.''))
     \<in> set (snd (analyze busy_day_env (lit ''NVDA'') []))"
    by blast
  with run show ?thesis
    by (simp add: py_str_def)
qed

text \<open>
  C7. When the news provider raises for the symbol, \<open>get_market_news\<close> returns the fixed
  text \<open>Error fetching news.\<close> in its place. The run does not fail for it: with a price
  summary present agent B is given that text as its data and the run goes on to agent C;
  it ends with an analysis, unless a response of the model client carried no text. A run
  that fails has an absent price summary or met such a response.
\<close>

theorem news_failure_absorbed:
  assumes "news env ticker = News_raises"
  shows "fst (get_market_news env ticker tr0) = lit ''Error fetching news.''
    \<and> (fst (get_stock_price env ticker tr) \<noteq> None \<longrightarrow>
         Generate_content model_name
           (final_prompt agent_b (lit ''Error fetching news.'')
              (lit ''Analyze sentiment for '' @ ticker))
         \<in> set (snd (analyze env ticker tr))
         \<and> ((\<exists>r. fst (analyze env ticker tr) = Inr r)
            \<or> fst (analyze env ticker tr) = Inl AttributeError \<and>
              (\<exists>k m contents. generate_content env k m contents = Response None)))
    \<and> (fst (get_stock_price env ticker tr) \<noteq> None \<and>
        (\<forall>k m contents. generate_content env k m contents \<noteq> Response None) \<longrightarrow>
         (\<exists>r tr'. analyze env ticker tr = (Inr r, tr') \<and>
            Generate_content model_name
              (final_prompt agent_b (lit ''Error fetching news.'')
                 (lit ''Analyze sentiment for '' @ ticker))
            \<in> set tr'))
    \<and> (\<forall>e. fst (analyze env ticker tr) = Inl e \<longrightarrow>
         fst (get_stock_price env ticker tr) = None
         \<or> e = AttributeError \<and>
           (\<exists>k m contents. generate_content env k m contents = Response None))"
proof -
  let ?gen_b = "Generate_content model_name
           (final_prompt agent_b (lit ''Error fetching news.'')
              (lit ''Analyze sentiment for '' @ ticker))"
  have placeholder: "fst (get_market_news env ticker tr0) = lit ''Error fetching news.''" for tr0
    using assms by (simp add: get_market_news_def)
  have present: "?gen_b \<in> set (snd (analyze env ticker tr))
         \<and> ((\<exists>r. fst (analyze env ticker tr) = Inr r)
            \<or> fst (analyze env ticker tr) = Inl AttributeError \<and>
              (\<exists>k m contents. generate_content env k m contents = Response None))"
    if "fst (get_stock_price env ticker tr) \<noteq> None"
  proof -
    from that obtain p where p: "fst (get_stock_price env ticker tr) = Some p"
      by auto
    from supervisor_steps [OF p] obtain a b tr_b c tr_c where
      c: "work env agent_c (lit ''Tech: '' @ py_str a @ [newline] @ lit ''News: '' @ py_str b)
            (lit ''Write a final email decision.'')
            (tr_b @ [Status_success complete, Status_text thinking]) = (c, tr_c)"
      and gen: "Generate_content model_name
            (final_prompt agent_b (fst (get_market_news env ticker (tr @ [Ticker_history ticker])))
               (lit ''Analyze sentiment for '' @ ticker)) \<in> set (snd (analyze env ticker tr))"
      and out: "c = None \<and> fst (analyze env ticker tr) = Inl AttributeError
          \<or> (\<exists>r. fst (analyze env ticker tr) = Inr r \<and>
                 technical r = a \<and> sentiment r = b \<and> c = Some (decision r))"
      by blast
    from gen have gen': "?gen_b \<in> set (snd (analyze env ticker tr))"
      unfolding placeholder .
    from out show ?thesis
    proof
      assume none: "c = None \<and> fst (analyze env ticker tr) = Inl AttributeError"
      with c have "fst (work env agent_c
            (lit ''Tech: '' @ py_str a @ [newline] @ lit ''News: '' @ py_str b)
            (lit ''Write a final email decision.'')
            (tr_b @ [Status_success complete, Status_text thinking])) = None"
        by simp
      from work_None [OF this]
      have "\<exists>k m contents. generate_content env k m contents = Response None"
        by blast
      with none gen' show ?thesis
        by simp
    next
      assume "\<exists>r. fst (analyze env ticker tr) = Inr r \<and>
                 technical r = a \<and> sentiment r = b \<and> c = Some (decision r)"
      with gen' show ?thesis
        by blast
    qed
  qed
  have failed: "fst (get_stock_price env ticker tr) = None
         \<or> e = AttributeError \<and>
           (\<exists>k m contents. generate_content env k m contents = Response None)"
    if "fst (analyze env ticker tr) = Inl e" for e
  proof (cases "fst (get_stock_price env ticker tr) = None")
    case True
    then show ?thesis by simp
  next
    case False
    from present [OF this] that show ?thesis
      by auto
  qed
  have texted: "\<exists>r tr'. analyze env ticker tr = (Inr r, tr') \<and> ?gen_b \<in> set tr'"
    if "fst (get_stock_price env ticker tr) \<noteq> None \<and>
        (\<forall>k m contents. generate_content env k m contents \<noteq> Response None)"
  proof -
    from that present obtain r where
      "fst (analyze env ticker tr) = Inr r" and "?gen_b \<in> set (snd (analyze env ticker tr))"
      by blast
    then have "analyze env ticker tr = (Inr r, snd (analyze env ticker tr))"
      by (simp add: prod_eq_iff)
    with \<open>?gen_b \<in> set (snd (analyze env ticker tr))\<close> show ?thesis
      by blast
  qed
  from placeholder present texted failed show ?thesis
    by blast
qed

theorem news_failure_absorbed_witness:
  "news all_fail_env (lit ''NVDA'') = News_raises
   \<and> fst (get_stock_price all_fail_env (lit ''NVDA'') []) \<noteq> None
   \<and> (\<forall>k m contents. generate_content all_fail_env k m contents \<noteq> Response None)
   \<and> fst (get_market_news all_fail_env (lit ''NVDA'') [Ticker_history (lit ''NVDA'')])
       = lit ''Error fetching news.''
   \<and> (\<exists>r tr'. analyze all_fail_env (lit ''NVDA'') [] = (Inr r, tr') \<and>
         Generate_content model_name
           (final_prompt agent_b (lit ''Error fetching news.'')
              (lit ''Analyze sentiment for '' @ lit ''NVDA''))
         \<in> set tr')"
proof -
  have h: "news all_fail_env (lit ''NVDA'') = News_raises"
    by (simp add: all_fail_env_def)
  have p: "fst (get_stock_price all_fail_env (lit ''NVDA'') []) \<noteq> None"
    by (simp add: get_stock_price_def all_fail_env_def)
  have t: "\<forall>k m contents. generate_content all_fail_env k m contents \<noteq> Response None"
    by (simp add: all_fail_env_def)
  show ?thesis
    using h p t news_failure_absorbed [OF h, of "[Ticker_history (lit ''NVDA'')]" "[]"]
    by blast
qed


section \<open>The decision banner\<close>
















section \<open>Empty and simulated results\<close>

lemma simulation_literal:
  "simulation ag =
     (if str_in (lit ''Technical'') (name ag)
      then lit ''SIMULATION: Trend is UP. RSI is 40. Strong Support at $130.''
      else if str_in (lit ''News'') (name ag)
      then lit ''SIMULATION: Market sentiment is cautious but optimistic. Earnings report pending.''
      else lit ''SIMULATION DECISION: BUY. (API Quota Reached).'')"
  by (simp add: simulation_def technical_simulation_def news_simulation_def
      decision_simulation_def)

lemma simulation_not_Nil [simp]: "simulation ag \<noteq> []"
  by (simp add: simulation_literal lit_def)

text \<open>
  C2, as the specification states it, fails: a call of the model client that succeeds with
  the empty text makes \<open>Agent.work\<close> return the empty text.
\<close>

theorem work_empty_reply_counterexample:
  "fst (work empty_reply_env agent_c (lit ''Tech: up'') (lit ''Write a final email decision.'') [])
     = Some []"
  by (simp add: work_def empty_reply_env_def numeral_2_eq_2)

text \<open>
  C2, amended. \<open>Agent.work\<close> returns what the first of its two calls that succeeds gives
  as the text of the response, unchanged: a text, which may be empty, or \<open>None\<close>. When
  both calls raise it returns the simulated text chosen by the name of the agent: the
  technical text for a name containing \<open>Technical\<close>, else the sentiment text for a name
  containing \<open>News\<close>, else the generic BUY text. So its result is a non-empty text unless
  the first call that succeeds gives an empty text or none; it is a non-empty text when
  no call gives an empty text or none, and when every call raises.
\<close>

theorem work_returns_first_reply:
  "(generate_content env (generate_calls tr) (model ag) (final_prompt ag context prompt)
        = Response (fst (work env ag context prompt tr))
    \<or> generate_content env (generate_calls tr) (model ag) (final_prompt ag context prompt)
        = Raises \<and>
      generate_content env (generate_calls tr + 1) (model ag) (final_prompt ag context prompt)
        = Response (fst (work env ag context prompt tr))
    \<or> generate_content env (generate_calls tr) (model ag) (final_prompt ag context prompt)
        = Raises \<and>
      generate_content env (generate_calls tr + 1) (model ag) (final_prompt ag context prompt)
        = Raises \<and>
      fst (work env ag context prompt tr) =
        Some (if str_in (lit ''Technical'') (name ag)
              then lit ''SIMULATION: Trend is UP. RSI is 40. Strong Support at $130.''
              else if str_in (lit ''News'') (name ag)
              then lit
                ''SIMULATION: Market sentiment is cautious but optimistic. Earnings report pending.''
              else lit ''SIMULATION DECISION: BUY. (API Quota Reached).''))
   \<and> ((fst (work env ag context prompt tr) = None \<or>
        fst (work env ag context prompt tr) = Some []) \<longleftrightarrow>
       (generate_content env (generate_calls tr) (model ag) (final_prompt ag context prompt)
          = Response None
        \<or> generate_content env (generate_calls tr) (model ag) (final_prompt ag context prompt)
          = Response (Some [])
        \<or> generate_content env (generate_calls tr) (model ag) (final_prompt ag context prompt)
            = Raises \<and>
          (generate_content env (generate_calls tr + 1) (model ag)
             (final_prompt ag context prompt) = Response None
           \<or> generate_content env (generate_calls tr + 1) (model ag)
             (final_prompt ag context prompt) = Response (Some []))))
   \<and> ((\<forall>k. generate_content env k (model ag) (final_prompt ag context prompt) \<noteq> Response None
           \<and> generate_content env k (model ag) (final_prompt ag context prompt)
               \<noteq> Response (Some []))
        \<longrightarrow> (\<exists>t. fst (work env ag context prompt tr) = Some t \<and> t \<noteq> []))
   \<and> ((\<forall>k. generate_content env k (model ag) (final_prompt ag context prompt) = Raises)
        \<longrightarrow> (\<exists>t. fst (work env ag context prompt tr) = Some t \<and> t \<noteq> []))"
proof -
  let ?c = "final_prompt ag context prompt"
  let ?r0 = "generate_content env (generate_calls tr) (model ag) ?c"
  let ?r1 = "generate_content env (generate_calls tr + 1) (model ag) ?c"
  let ?res = "fst (work env ag context prompt tr)"
  have pinned: "?r0 = Response ?res
    \<or> ?r0 = Raises \<and> ?r1 = Response ?res
    \<or> ?r0 = Raises \<and> ?r1 = Raises \<and> ?res = Some (simulation ag)"
  proof (cases ?r0)
    case (Response r0)
    from work_first [OF this] Response show ?thesis
      by simp
  next
    case first: Raises
    show ?thesis
    proof (cases "generate_content env (Suc (generate_calls tr)) (model ag) ?c")
      case (Response r1)
      from work_second [OF first this] first Response show ?thesis
        by simp
    next
      case Raises
      from work_fallback [OF first this] first Raises show ?thesis
        by simp
    qed
  qed
  have empty: "(?res = None \<or> ?res = Some []) \<longleftrightarrow>
       (?r0 = Response None \<or> ?r0 = Response (Some [])
        \<or> ?r0 = Raises \<and> (?r1 = Response None \<or> ?r1 = Response (Some [])))"
    using pinned by (cases ?r0; cases ?r1) auto
  have texted: "\<exists>t. ?res = Some t \<and> t \<noteq> []"
    if "\<forall>k. generate_content env k (model ag) ?c \<noteq> Response None
           \<and> generate_content env k (model ag) ?c \<noteq> Response (Some [])"
  proof -
    from that have "\<not> (?res = None \<or> ?res = Some [])"
      unfolding empty by simp
    then show ?thesis
      by (cases ?res) simp_all
  qed
  have fallback: "\<exists>t. ?res = Some t \<and> t \<noteq> []"
    if "\<forall>k. generate_content env k (model ag) ?c = Raises"
    using pinned that by simp
  from pinned empty texted fallback show ?thesis
    unfolding simulation_literal by blast
qed

theorem work_returns_first_reply_witness:
  "(\<forall>k. generate_content all_fail_env k (model agent_a)
           (final_prompt agent_a (lit ''$130.00 (+2.00%)'') (lit ''Analyze NVDA'')) = Raises)
   \<and> (\<forall>k. generate_content busy_day_env k (model agent_a)
           (final_prompt agent_a (lit ''$130.00 (+2.00%)'') (lit ''Analyze NVDA''))
             \<noteq> Response None
         \<and> generate_content busy_day_env k (model agent_a)
           (final_prompt agent_a (lit ''$130.00 (+2.00%)'') (lit ''Analyze NVDA''))
             \<noteq> Response (Some []))
   \<and> (\<exists>t. fst (work all_fail_env agent_a (lit ''$130.00 (+2.00%)'') (lit ''Analyze NVDA'') [])
            = Some t \<and> t \<noteq> [])
   \<and> (\<exists>t. fst (work busy_day_env agent_a (lit ''$130.00 (+2.00%)'') (lit ''Analyze NVDA'') [])
            = Some t \<and> t \<noteq> [])"
proof -
  have h: "\<forall>k. generate_content all_fail_env k (model agent_a)
           (final_prompt agent_a (lit ''$130.00 (+2.00%)'') (lit ''Analyze NVDA'')) = Raises"
    by (simp add: all_fail_env_def)
  have g: "\<forall>k. generate_content busy_day_env k (model agent_a)
           (final_prompt agent_a (lit ''$130.00 (+2.00%)'') (lit ''Analyze NVDA''))
             \<noteq> Response None
         \<and> generate_content busy_day_env k (model agent_a)
           (final_prompt agent_a (lit ''$130.00 (+2.00%)'') (lit ''Analyze NVDA''))
             \<noteq> Response (Some [])"
    by (simp add: busy_day_env_def lit_def)
  show ?thesis
    using h g
      work_returns_first_reply
        [of all_fail_env "[]" agent_a "lit ''$130.00 (+2.00%)''" "lit ''Analyze NVDA''"]
      work_returns_first_reply
        [of busy_day_env "[]" agent_a "lit ''$130.00 (+2.00%)''" "lit ''Analyze NVDA''"]
    by blast
qed

text \<open>
  C1 at the run where the price is known and every call of the model client raises: the
  agents of the run are named \<open>Quant\<close>, \<open>Journalist\<close> and \<open>CIO\<close>, no name contains the
  marker \<open>Technical\<close> or \<open>News\<close>, and all three results are the generic decision text.
\<close>

theorem all_fail_run_is_generic:
  "fst (analyze all_fail_env (lit ''NVDA'') [])
     = Inr \<lparr>metric_value = lit ''$130.00 '', metric_delta = lit ''+2.00%'',
            technical = Some (lit ''SIMULATION DECISION: BUY. (API Quota Reached).''),
            sentiment = Some (lit ''SIMULATION DECISION: BUY. (API Quota Reached).''),
            decision = lit ''SIMULATION DECISION: BUY. (API Quota Reached).'',
            banner = BUY\<rparr>"
  by (simp add: run_defs all_fail_env_def)

end
